theory Spec2Isabelle
  imports Complex_Main "HOL-Library.Word"
begin

section \<open>Multi-label accuracy metrics and threshold search\<close>

text \<open>
  The embedded code is \<open>utils_cv/classification/model.py\<close> (compiled form):
  \<^verbatim>\<open>
  def hamming_accuracy(y_pred, y_true, threshold=c, sigmoid=False):
      if sigmoid:
          y_pred = y_pred.sigmoid()
      if threshold:
          y_pred = y_pred > threshold
      return 1 - (y_pred.float() != y_true).sum() / torch.ones(y_pred.shape).sum()

  def zero_one_accuracy(y_pred, y_true, threshold=c, sigmoid=False):
      if sigmoid:
          y_pred = y_pred.sigmoid()
      if threshold:
          y_pred = y_pred > threshold
      zero_one_preds = (y_pred.float() != y_true).sum(dim=1)
      zero_one_preds[zero_one_preds >= 1] = 1
      num_labels = y_pred.shape[-1]
      return 1 - zero_one_preds.sum().float() / len(y_pred.reshape(-1, num_labels))

  def get_optimal_threshold(metric_function, y_pred, y_true,
                            thresholds=np.linspace(0, 1, 21)):
      optimal_threshold = None
      metric_max = -np.inf
      for threshold in thresholds:
          metric = metric_function(y_pred, y_true, threshold=threshold)
          if metric > metric_max:
              metric_max = metric
              optimal_threshold = threshold
      return optimal_threshold
  \<close>
  where \<open>c\<close> is a float constant of the module of which only three bytes are legible
  (see \<open>default_threshold\<close> below).
  Scores are modelled as real numbers: rounding of machine floats is not modelled, the
  special values (not-a-number, the infinities) are. Tensors are two-dimensional.
\<close>

subsection \<open>Floats with special values\<close>

datatype fl = NaN | NegInf | Fin real | PosInf

text \<open>The comparison \<open>a > b\<close>; every comparison with not-a-number is false.\<close>

fun fl_gt :: "fl \<Rightarrow> fl \<Rightarrow> bool" where
  "fl_gt NaN _ = False"
| "fl_gt _ NaN = False"
| "fl_gt NegInf _ = False"
| "fl_gt _ NegInf = True"
| "fl_gt (Fin a) (Fin b) = (b < a)"
| "fl_gt (Fin a) PosInf = False"
| "fl_gt PosInf (Fin b) = True"
| "fl_gt PosInf PosInf = False"

text \<open>The quotient \<open>a / b\<close> of two finite floats; dividing by zero raises nothing.\<close>

definition fdiv :: "real \<Rightarrow> real \<Rightarrow> fl" where
  "fdiv a b =
     (if b \<noteq> 0 then Fin (a / b)
      else if a = 0 then NaN
      else if 0 < a then PosInf else NegInf)"

text \<open>The difference \<open>c - x\<close> for a finite \<open>c\<close>.\<close>

fun fl_rsub :: "real \<Rightarrow> fl \<Rightarrow> fl" where
  "fl_rsub c NaN = NaN"
| "fl_rsub c NegInf = PosInf"
| "fl_rsub c (Fin x) = Fin (c - x)"
| "fl_rsub c PosInf = NegInf"

subsection \<open>Two-dimensional tensors and the tensor operations the code calls\<close>

datatype error = ShapeError

datatype tensor = Tensor (nrows: nat) (ncols: nat) (entry: "nat \<Rightarrow> nat \<Rightarrow> real")

text \<open>A tensor given by its rows.\<close>

definition of_rows :: "nat \<Rightarrow> nat \<Rightarrow> real list list \<Rightarrow> tensor" where
  "of_rows n k rows = Tensor n k (\<lambda>i j. rows ! i ! j)"

definition sigmoid_fn :: "real \<Rightarrow> real" where
  "sigmoid_fn x = 1 / (1 + exp (- x))"

text \<open>\<open>T.sigmoid()\<close>\<close>

definition t_sigmoid :: "tensor \<Rightarrow> tensor" where
  "t_sigmoid T = Tensor (nrows T) (ncols T) (\<lambda>i j. sigmoid_fn (entry T i j))"

text \<open>\<open>T > c\<close>: a tensor of 0/1 values.\<close>

definition t_gt :: "tensor \<Rightarrow> real \<Rightarrow> tensor" where
  "t_gt T c = Tensor (nrows T) (ncols T) (\<lambda>i j. if c < entry T i j then 1 else 0)"

text \<open>\<open>T.float()\<close> keeps every value.\<close>

definition t_float :: "tensor \<Rightarrow> tensor" where
  "t_float T = T"

text \<open>
  Broadcasting of one dimension: equal sizes, or one of them is 1.
\<close>

definition broadcast_dim :: "nat \<Rightarrow> nat \<Rightarrow> nat option" where
  "broadcast_dim a b =
     (if a = b then Some a
      else if a = 1 then Some b
      else if b = 1 then Some a
      else None)"

text \<open>
  \<open>A != B\<close>: elementwise on the broadcast shape, a tensor of 0/1 values; shapes that
  cannot be broadcast raise an error.
\<close>

definition t_ne :: "tensor \<Rightarrow> tensor \<Rightarrow> error + tensor" where
  "t_ne A B =
     (case (broadcast_dim (nrows A) (nrows B), broadcast_dim (ncols A) (ncols B)) of
        (Some n, Some k) \<Rightarrow>
          Inr (Tensor n k
            (\<lambda>i j. if entry A (if nrows A = 1 then 0 else i) (if ncols A = 1 then 0 else j)
                     \<noteq> entry B (if nrows B = 1 then 0 else i) (if ncols B = 1 then 0 else j)
                    then 1 else 0))
      | _ \<Rightarrow> Inl ShapeError)"

text \<open>\<open>T.sum(dim=1)\<close>: the sum of every row.\<close>

definition t_sum_dim1 :: "tensor \<Rightarrow> real list" where
  "t_sum_dim1 T = map (\<lambda>i. \<Sum>j\<leftarrow>[0..<ncols T]. entry T i j) [0..<nrows T]"

text \<open>\<open>T.sum()\<close>: the sum of all entries.\<close>

definition t_sum :: "tensor \<Rightarrow> real" where
  "t_sum T = (\<Sum>i\<leftarrow>[0..<nrows T]. \<Sum>j\<leftarrow>[0..<ncols T]. entry T i j)"

text \<open>\<open>torch.ones(shape)\<close>\<close>

definition t_ones :: "nat \<Rightarrow> nat \<Rightarrow> tensor" where
  "t_ones n k = Tensor n k (\<lambda>i j. 1)"

text \<open>
  \<open>len(T.reshape(-1, c))\<close>: the number of rows of the reshaped tensor. The free
  dimension cannot be inferred for \<open>c = 0\<close>, nor when \<open>c\<close> does not divide the number of
  elements.
\<close>

definition reshape_len :: "tensor \<Rightarrow> nat \<Rightarrow> error + nat" where
  "reshape_len T c =
     (if c = 0 \<or> (nrows T * ncols T) mod c \<noteq> 0 then Inl ShapeError
      else Inr ((nrows T * ncols T) div c))"

subsection \<open>The metrics\<close>

definition hamming_accuracy :: "tensor \<Rightarrow> tensor \<Rightarrow> real \<Rightarrow> bool \<Rightarrow> error + fl" where
  "hamming_accuracy y_pred y_true threshold sigmoid =
     (let y_pred = (if sigmoid then t_sigmoid y_pred else y_pred);
          y_pred = (if threshold \<noteq> 0 then t_gt y_pred threshold else y_pred)
      in case t_ne (t_float y_pred) y_true of
           Inl e \<Rightarrow> Inl e
         | Inr d \<Rightarrow>
             Inr (fl_rsub 1 (fdiv (t_sum d) (t_sum (t_ones (nrows y_pred) (ncols y_pred))))))"

definition zero_one_accuracy :: "tensor \<Rightarrow> tensor \<Rightarrow> real \<Rightarrow> bool \<Rightarrow> error + fl" where
  "zero_one_accuracy y_pred y_true threshold sigmoid =
     (let y_pred = (if sigmoid then t_sigmoid y_pred else y_pred);
          y_pred = (if threshold \<noteq> 0 then t_gt y_pred threshold else y_pred)
      in case t_ne (t_float y_pred) y_true of
           Inl e \<Rightarrow> Inl e
         | Inr d \<Rightarrow>
             (let zero_one_preds = t_sum_dim1 d;
                  zero_one_preds = map (\<lambda>c. if 1 \<le> c then 1 else c) zero_one_preds;
                  num_labels = ncols y_pred
              in case reshape_len y_pred num_labels of
                   Inl e \<Rightarrow> Inl e
                 | Inr m \<Rightarrow> Inr (fl_rsub 1 (fdiv (sum_list zero_one_preds) (real m)))))"

subsection \<open>The default arguments\<close>

text \<open>
  Both signatures share one default pair \<open>(c, False)\<close> in the compiled module. The float
  \<open>c\<close> is stored as the eight bytes of an IEEE 754 double, least significant byte first.
  Of these bytes only the first two, \<open>9a 99\<close>, and the last, \<open>3f\<close>, are legible in the
  source file; the five bytes between them are a parameter of the model.
\<close>

type_synonym byte = "8 word"

text \<open>The 64 bits of eight bytes, least significant byte first.\<close>

definition le_bits :: "byte list \<Rightarrow> nat" where
  "le_bits bs = foldr (\<lambda>b acc. unat b + 256 * acc) bs 0"

text \<open>
  The value of a normal double: sign bit, 11 bits of exponent with bias 1023, 52 bits of
  mantissa. (The last byte \<open>3f\<close> makes the exponent field one of \<open>3f0\<close> to \<open>3ff\<close>, so
  the constant is a normal number.)
\<close>

definition double_of_bytes :: "byte list \<Rightarrow> real" where
  "double_of_bytes bs =
     (let bits = le_bits bs;
          sgn = bits div 2 ^ 63 mod 2;
          ex = bits div 2 ^ 52 mod 2 ^ 11;
          mant = bits mod 2 ^ 52
      in (if sgn = 1 then - 1 else 1) * (1 + real mant / 2 ^ 52) * 2 ^ ex / 2 ^ 1023)"

type_synonym lost_bytes = "byte \<times> byte \<times> byte \<times> byte \<times> byte"

definition default_threshold :: "lost_bytes \<Rightarrow> real" where
  "default_threshold lost =
     (case lost of (b2, b3, b4, b5, b6) \<Rightarrow>
        double_of_bytes [0x9a, 0x99, b2, b3, b4, b5, b6, 0x3f])"

definition default_sigmoid :: bool where
  "default_sigmoid = False"

text \<open>
  A call that may omit the keyword arguments: \<open>None\<close> stands for an omitted argument,
  which takes the default of the signature.
\<close>

definition hamming_accuracy_call ::
    "lost_bytes \<Rightarrow> tensor \<Rightarrow> tensor \<Rightarrow> real option \<Rightarrow> bool option \<Rightarrow> error + fl" where
  "hamming_accuracy_call lost y_pred y_true threshold sigmoid =
     hamming_accuracy y_pred y_true
       (case threshold of None \<Rightarrow> default_threshold lost | Some t \<Rightarrow> t)
       (case sigmoid of None \<Rightarrow> default_sigmoid | Some s \<Rightarrow> s)"

definition zero_one_accuracy_call ::
    "lost_bytes \<Rightarrow> tensor \<Rightarrow> tensor \<Rightarrow> real option \<Rightarrow> bool option \<Rightarrow> error + fl" where
  "zero_one_accuracy_call lost y_pred y_true threshold sigmoid =
     zero_one_accuracy y_pred y_true
       (case threshold of None \<Rightarrow> default_threshold lost | Some t \<Rightarrow> t)
       (case sigmoid of None \<Rightarrow> default_sigmoid | Some s \<Rightarrow> s)"

subsection \<open>The threshold search\<close>

text \<open>
  The metric is called as \<open>metric_function(y_pred, y_true, threshold=threshold)\<close>: the
  sigmoid flag is not passed.
\<close>

type_synonym metric = "tensor \<Rightarrow> tensor \<Rightarrow> real option \<Rightarrow> bool option \<Rightarrow> error + fl"

text \<open>
  The loop over the candidates, with the loop variables \<open>optimal_threshold\<close> and
  \<open>metric_max\<close>; an error raised by the metric ends the search.
\<close>

fun sweep :: "metric \<Rightarrow> tensor \<Rightarrow> tensor \<Rightarrow> real list \<Rightarrow> real option \<Rightarrow> fl
    \<Rightarrow> error + real option" where
  "sweep metric_function y_pred y_true [] optimal_threshold metric_max =
     Inr optimal_threshold"
| "sweep metric_function y_pred y_true (threshold # thresholds) optimal_threshold metric_max =
     (case metric_function y_pred y_true (Some threshold) None of
        Inl e \<Rightarrow> Inl e
      | Inr metric \<Rightarrow>
          if fl_gt metric metric_max
          then sweep metric_function y_pred y_true thresholds (Some threshold) metric
          else sweep metric_function y_pred y_true thresholds optimal_threshold metric_max)"

text \<open>The result \<open>None\<close> is Python's \<open>None\<close>.\<close>

definition get_optimal_threshold ::
    "metric \<Rightarrow> tensor \<Rightarrow> tensor \<Rightarrow> real list \<Rightarrow> error + real option" where
  "get_optimal_threshold metric_function y_pred y_true thresholds =
     sweep metric_function y_pred y_true thresholds None NegInf"

text \<open>\<open>np.linspace(a, b, num)\<close> for \<open>num \<ge> 2\<close>.\<close>

definition linspace :: "real \<Rightarrow> real \<Rightarrow> nat \<Rightarrow> real list" where
  "linspace a b num = map (\<lambda>i. a + real i * ((b - a) / real (num - 1))) [0..<num]"

definition default_thresholds :: "real list" where
  "default_thresholds = linspace 0 1 21"

text \<open>A call that may omit the candidate sequence.\<close>

definition get_optimal_threshold_call ::
    "metric \<Rightarrow> tensor \<Rightarrow> tensor \<Rightarrow> real list option \<Rightarrow> error + real option" where
  "get_optimal_threshold_call metric_function y_pred y_true thresholds =
     get_optimal_threshold metric_function y_pred y_true
       (case thresholds of None \<Rightarrow> default_thresholds | Some ts \<Rightarrow> ts)"

section \<open>The specification's notions\<close>

text \<open>
  The score that is thresholded: the entry itself, or its sigmoid when the flag is set.
\<close>

definition spec_score :: "tensor \<Rightarrow> bool \<Rightarrow> nat \<Rightarrow> nat \<Rightarrow> real" where
  "spec_score P s i j = (if s then sigmoid_fn (entry P i j) else entry P i j)"

text \<open>The binarized prediction: 1 when the score is above the threshold, else 0.\<close>

definition spec_label :: "tensor \<Rightarrow> real \<Rightarrow> bool \<Rightarrow> nat \<Rightarrow> nat \<Rightarrow> real" where
  "spec_label P t s i j = (if t < spec_score P s i j then 1 else 0)"

text \<open>
  The positions where the binarized prediction differs from, or equals, the ground
  truth.
\<close>

definition spec_mismatches :: "tensor \<Rightarrow> tensor \<Rightarrow> real \<Rightarrow> bool \<Rightarrow> (nat \<times> nat) set" where
  "spec_mismatches P Y t s =
     {(i, j). i < nrows P \<and> j < ncols P \<and> spec_label P t s i j \<noteq> entry Y i j}"

definition spec_matches :: "tensor \<Rightarrow> tensor \<Rightarrow> real \<Rightarrow> bool \<Rightarrow> (nat \<times> nat) set" where
  "spec_matches P Y t s =
     {(i, j). i < nrows P \<and> j < ncols P \<and> spec_label P t s i j = entry Y i j}"

text \<open>The number of mismatches of a row; a row is correct when it has none.\<close>

definition spec_row_mismatches :: "tensor \<Rightarrow> tensor \<Rightarrow> real \<Rightarrow> bool \<Rightarrow> nat \<Rightarrow> nat" where
  "spec_row_mismatches P Y t s i =
     card {j. j < ncols P \<and> spec_label P t s i j \<noteq> entry Y i j}"

definition spec_correct_rows :: "tensor \<Rightarrow> tensor \<Rightarrow> real \<Rightarrow> bool \<Rightarrow> nat set" where
  "spec_correct_rows P Y t s = {i. i < nrows P \<and> spec_row_mismatches P Y t s i = 0}"

text \<open>
  The formula of the specification's section 4.1, word for word: one minus the number
  of positions where the binarized prediction equals the ground truth, over the number
  of positions.
\<close>

definition spec_hamming_claimed :: "tensor \<Rightarrow> tensor \<Rightarrow> real \<Rightarrow> bool \<Rightarrow> fl" where
  "spec_hamming_claimed P Y t s =
     fl_rsub 1 (fdiv (real (card (spec_matches P Y t s))) (real (nrows P * ncols P)))"

section \<open>Auxiliary notions of the proofs\<close>

text \<open>The prediction after the two conditional steps that both metrics start with.\<close>

definition prep :: "tensor \<Rightarrow> real \<Rightarrow> bool \<Rightarrow> tensor" where
  "prep P t s =
     (let y = (if s then t_sigmoid P else P) in if t \<noteq> 0 then t_gt y t else y)"

text \<open>The comparison of two tensors on the shape of the first.\<close>

definition ne_tensor :: "tensor \<Rightarrow> tensor \<Rightarrow> tensor" where
  "ne_tensor A B = Tensor (nrows A) (ncols A)
     (\<lambda>i j. if entry A (if nrows A = 1 then 0 else i) (if ncols A = 1 then 0 else j)
               \<noteq> entry B (if nrows B = 1 then 0 else i) (if ncols B = 1 then 0 else j)
             then 1 else 0)"

text \<open>
  The entry that the code compares with the ground truth: the binarized prediction, and
  for the threshold 0, where the code does not binarize, the score itself.
\<close>

definition cmp_label :: "tensor \<Rightarrow> real \<Rightarrow> bool \<Rightarrow> nat \<Rightarrow> nat \<Rightarrow> real" where
  "cmp_label P t s i j =
     (if t \<noteq> 0 then (if t < spec_score P s i j then 1 else 0) else spec_score P s i j)"

definition cmp_mismatches :: "tensor \<Rightarrow> tensor \<Rightarrow> real \<Rightarrow> bool \<Rightarrow> (nat \<times> nat) set" where
  "cmp_mismatches P Y t s =
     {(i, j). i < nrows P \<and> j < ncols P \<and> cmp_label P t s i j \<noteq> entry Y i j}"

definition cmp_row_mismatches :: "tensor \<Rightarrow> tensor \<Rightarrow> real \<Rightarrow> bool \<Rightarrow> nat \<Rightarrow> nat" where
  "cmp_row_mismatches P Y t s i = card {j. j < ncols P \<and> cmp_label P t s i j \<noteq> entry Y i j}"

definition cmp_correct_rows :: "tensor \<Rightarrow> tensor \<Rightarrow> real \<Rightarrow> bool \<Rightarrow> nat set" where
  "cmp_correct_rows P Y t s = {i. i < nrows P \<and> cmp_row_mismatches P Y t s i = 0}"

definition cmp_wrong_rows :: "tensor \<Rightarrow> tensor \<Rightarrow> real \<Rightarrow> bool \<Rightarrow> nat set" where
  "cmp_wrong_rows P Y t s = {i. i < nrows P \<and> 1 \<le> cmp_row_mismatches P Y t s i}"

section \<open>Test data\<close>

text \<open>
  The scenario of the specification: four samples, three labels, one wrong label in
  the third row.
\<close>

definition Y4 :: tensor where
  "Y4 = of_rows 4 3 [[1,0,0],[0,1,0],[1,1,0],[0,0,1]]"

definition P4 :: tensor where
  "P4 = of_rows 4 3 [[1,0,0],[0,1,0],[1,0,0],[0,0,1]]"

text \<open>
  Five samples with one label: the exact-match accuracy is 0.6 at the threshold 0.1,
  0.8 at 0.5 and 0.4 at 0.9.
\<close>

definition Y5 :: tensor where
  "Y5 = of_rows 5 1 [[1],[1],[0],[1],[0]]"

definition P5 :: tensor where
  "P5 = of_rows 5 1 [[6/10],[7/10],[3/10],[95/100],[95/100]]"

text \<open>A prediction of shape (2, 2) and a ground truth of shape (1, 2).\<close>

definition P22 :: tensor where
  "P22 = of_rows 2 2 [[1,0],[0,1]]"

definition Y12 :: tensor where
  "Y12 = of_rows 1 2 [[1,0]]"

text \<open>Single entries.\<close>

definition P03 :: tensor where
  "P03 = of_rows 1 1 [[3/10]]"

definition P07 :: tensor where
  "P07 = of_rows 1 1 [[7/10]]"

definition Y1 :: tensor where
  "Y1 = of_rows 1 1 [[1]]"

definition Z1 :: tensor where
  "Z1 = of_rows 1 1 [[0]]"

text \<open>An empty batch of shape (0, 3), and two samples without a label column.\<close>

definition E03 :: tensor where
  "E03 = of_rows 0 3 []"

definition E20 :: tensor where
  "E20 = of_rows 2 0 [[], []]"

text \<open>
  One value of the five illegible bytes of the default threshold, at which closed
  statements are instantiated; they hold for every other value as well.
\<close>

definition some_lost_bytes :: lost_bytes where
  "some_lost_bytes = (0x99, 0x99, 0x99, 0x99, 0xc9)"

section \<open>Lemmas\<close>

lemma sum_list_indicator:
  "(\<Sum>j\<leftarrow>[0..<k]. if Q j then 1 else (0::real)) = real (card {j. j < k \<and> Q j})"
proof -
  have "(\<Sum>j\<leftarrow>[0..<k]. if Q j then 1 else (0::real)) = (\<Sum>j\<in>{0..<k}. if Q j then 1 else 0)"
    by (simp add: interv_sum_list_conv_sum_set_nat)
  also have "\<dots> = real (card ({0..<k} \<inter> {j. Q j}))"
    by (simp add: sum.If_cases)
  also have "{0..<k} \<inter> {j. Q j} = {j. j < k \<and> Q j}" by auto
  finally show ?thesis .
qed

lemma sum_list_indicator2:
  "(\<Sum>i\<leftarrow>[0..<n]. \<Sum>j\<leftarrow>[0..<k]. if Q i j then 1 else (0::real))
     = real (card {(i, j). i < n \<and> j < k \<and> Q i j})"
proof -
  have "{(i, j). i < n \<and> j < k \<and> Q i j} = (SIGMA i:{0..<n}. {j. j < k \<and> Q i j})"
    by auto
  then have "card {(i, j). i < n \<and> j < k \<and> Q i j} = (\<Sum>i\<in>{0..<n}. card {j. j < k \<and> Q i j})"
    by (simp add: card_SigmaI)
  moreover have "(\<Sum>i\<leftarrow>[0..<n]. \<Sum>j\<leftarrow>[0..<k]. if Q i j then 1 else (0::real))
      = (\<Sum>i\<in>{0..<n}. real (card {j. j < k \<and> Q i j}))"
    by (simp only: sum_list_indicator) (simp add: interv_sum_list_conv_sum_set_nat)
  ultimately show ?thesis by simp
qed

lemma prep_shape: "nrows (prep P t s) = nrows P" "ncols (prep P t s) = ncols P"
  by (simp_all add: prep_def t_sigmoid_def t_gt_def Let_def)

lemma prep_entry: "entry (prep P t s) i j = cmp_label P t s i j"
  by (simp add: prep_def t_sigmoid_def t_gt_def Let_def cmp_label_def spec_score_def)

lemma broadcast_dim_same: "broadcast_dim a a = Some a"
  by (simp add: broadcast_dim_def)

lemma t_ne_same_shape:
  assumes "nrows A = nrows B" "ncols A = ncols B"
  shows "t_ne A B = Inr (ne_tensor A B)"
  using assms by (simp add: t_ne_def broadcast_dim_same ne_tensor_def)

lemma ne_tensor_entry:
  assumes "nrows A = nrows B" "ncols A = ncols B" "i < nrows A" "j < ncols A"
  shows "entry (ne_tensor A B) i j = (if entry A i j \<noteq> entry B i j then 1 else 0)"
  using assms by (auto simp add: ne_tensor_def)

lemma sum_list_upt_cong:
  "(\<And>i. i < n \<Longrightarrow> f i = g i) \<Longrightarrow> (\<Sum>i\<leftarrow>[0..<n]. f i) = (\<Sum>i\<leftarrow>[0..<n]. (g i :: real))"
  by (rule arg_cong [where f = sum_list]) simp

lemma row_sum_ne:
  assumes "nrows A = nrows B" "ncols A = ncols B" "i < nrows A"
  shows "(\<Sum>j\<leftarrow>[0..<ncols A]. entry (ne_tensor A B) i j)
           = real (card {j. j < ncols A \<and> entry A i j \<noteq> entry B i j})"
proof -
  have "(\<Sum>j\<leftarrow>[0..<ncols A]. entry (ne_tensor A B) i j)
          = (\<Sum>j\<leftarrow>[0..<ncols A]. if entry A i j \<noteq> entry B i j then 1 else 0)"
    by (rule sum_list_upt_cong) (rule ne_tensor_entry [OF assms])
  then show ?thesis by (simp only: sum_list_indicator)
qed

lemma t_sum_ne:
  assumes "nrows A = nrows B" "ncols A = ncols B"
  shows "t_sum (ne_tensor A B)
           = real (card {(i, j). i < nrows A \<and> j < ncols A \<and> entry A i j \<noteq> entry B i j})"
proof -
  have sh: "nrows (ne_tensor A B) = nrows A" "ncols (ne_tensor A B) = ncols A"
    by (simp_all add: ne_tensor_def)
  have "t_sum (ne_tensor A B)
          = (\<Sum>i\<leftarrow>[0..<nrows A]. real (card {j. j < ncols A \<and> entry A i j \<noteq> entry B i j}))"
    unfolding t_sum_def sh by (rule sum_list_upt_cong) (rule row_sum_ne [OF assms])
  also have "\<dots> = (\<Sum>i\<leftarrow>[0..<nrows A]. \<Sum>j\<leftarrow>[0..<ncols A].
                       if entry A i j \<noteq> entry B i j then 1 else 0)"
    by (simp only: sum_list_indicator)
  finally show ?thesis by (simp only: sum_list_indicator2)
qed

lemma t_sum_ones: "t_sum (t_ones n k) = real (n * k)"
  by (simp add: t_sum_def t_ones_def sum_list_triv)

lemma hamming_accuracy_prep:
  "hamming_accuracy P Y t s =
     (case t_ne (prep P t s) Y of
        Inl e \<Rightarrow> Inl e
      | Inr d \<Rightarrow> Inr (fl_rsub 1 (fdiv (t_sum d) (real (nrows P * ncols P)))))"
  by (simp add: hamming_accuracy_def prep_def Let_def t_float_def t_sum_ones
      t_sigmoid_def t_gt_def split: sum.split)

lemma hamming_accuracy_same_shape:
  assumes "nrows P = nrows Y" "ncols P = ncols Y"
  shows "hamming_accuracy P Y t s =
           Inr (fl_rsub 1 (fdiv (real (card (cmp_mismatches P Y t s)))
                                (real (nrows P * ncols P))))"
proof -
  have sh: "nrows (prep P t s) = nrows Y" "ncols (prep P t s) = ncols Y"
    using assms by (simp_all add: prep_shape)
  show ?thesis
    unfolding hamming_accuracy_prep t_ne_same_shape [OF sh]
    by (simp add: t_sum_ne [OF sh] prep_shape prep_entry cmp_mismatches_def)
qed

lemma zero_one_accuracy_prep:
  "zero_one_accuracy P Y t s =
     (case t_ne (prep P t s) Y of
        Inl e \<Rightarrow> Inl e
      | Inr d \<Rightarrow>
          (case reshape_len (prep P t s) (ncols P) of
             Inl e \<Rightarrow> Inl e
           | Inr m \<Rightarrow>
               Inr (fl_rsub 1 (fdiv (sum_list (map (\<lambda>c. if 1 \<le> c then 1 else c) (t_sum_dim1 d)))
                                    (real m)))))"
  by (simp add: zero_one_accuracy_def prep_def Let_def t_float_def
      t_sigmoid_def t_gt_def split: sum.split)

lemma reshape_len_cols:
  "0 < ncols T \<Longrightarrow> reshape_len T (ncols T) = Inr (nrows T)"
  by (simp add: reshape_len_def)

lemma reshape_len_no_cols: "reshape_len T 0 = Inl ShapeError"
  by (simp add: reshape_len_def)

lemma clamped_row_sums_ne:
  assumes "nrows A = nrows B" "ncols A = ncols B"
  shows "sum_list (map (\<lambda>c. if 1 \<le> c then 1 else c) (t_sum_dim1 (ne_tensor A B)))
           = real (card {i. i < nrows A
                  \<and> 1 \<le> card {j. j < ncols A \<and> entry A i j \<noteq> entry B i j}})"
proof -
  have sh: "nrows (ne_tensor A B) = nrows A" "ncols (ne_tensor A B) = ncols A"
    by (simp_all add: ne_tensor_def)
  have "sum_list (map (\<lambda>c. if 1 \<le> c then 1 else c) (t_sum_dim1 (ne_tensor A B)))
          = (\<Sum>i\<leftarrow>[0..<nrows A].
               if 1 \<le> (\<Sum>j\<leftarrow>[0..<ncols A]. entry (ne_tensor A B) i j) then 1
               else (\<Sum>j\<leftarrow>[0..<ncols A]. entry (ne_tensor A B) i j))"
    by (simp add: t_sum_dim1_def sh comp_def)
  also have "\<dots> = (\<Sum>i\<leftarrow>[0..<nrows A].
               if 1 \<le> card {j. j < ncols A \<and> entry A i j \<noteq> entry B i j} then 1 else 0)"
  proof (rule sum_list_upt_cong)
    fix i assume i: "i < nrows A"
    define c where "c = card {j. j < ncols A \<and> entry A i j \<noteq> entry B i j}"
    have eq: "(\<Sum>j\<leftarrow>[0..<ncols A]. entry (ne_tensor A B) i j) = real c"
      unfolding c_def by (rule row_sum_ne [OF assms i])
    show "(if 1 \<le> (\<Sum>j\<leftarrow>[0..<ncols A]. entry (ne_tensor A B) i j) then 1
           else (\<Sum>j\<leftarrow>[0..<ncols A]. entry (ne_tensor A B) i j))
          = (if 1 \<le> card {j. j < ncols A \<and> entry A i j \<noteq> entry B i j} then 1 else 0)"
      unfolding eq c_def [symmetric] by (cases c) simp_all
  qed
  finally show ?thesis by (simp only: sum_list_indicator)
qed

lemma zero_one_accuracy_same_shape:
  assumes "nrows P = nrows Y" "ncols P = ncols Y" "0 < ncols P"
  shows "zero_one_accuracy P Y t s =
           Inr (fl_rsub 1 (fdiv (real (card (cmp_wrong_rows P Y t s))) (real (nrows P))))"
proof -
  have sh: "nrows (prep P t s) = nrows Y" "ncols (prep P t s) = ncols Y"
    using assms by (simp_all add: prep_shape)
  have rl: "reshape_len (prep P t s) (ncols P) = Inr (nrows P)"
    using reshape_len_cols [of "prep P t s"] assms(3) by (simp add: prep_shape)
  show ?thesis
    unfolding zero_one_accuracy_prep t_ne_same_shape [OF sh] rl
    by (simp add: clamped_row_sums_ne [OF sh] prep_shape prep_entry cmp_wrong_rows_def
        cmp_row_mismatches_def)
qed

lemma correct_wrong_rows:
  "card (cmp_correct_rows P Y t s) + card (cmp_wrong_rows P Y t s) = nrows P"
proof -
  have fin: "finite (cmp_correct_rows P Y t s)" "finite (cmp_wrong_rows P Y t s)"
    by (simp_all add: cmp_correct_rows_def cmp_wrong_rows_def)
  have dis: "cmp_correct_rows P Y t s \<inter> cmp_wrong_rows P Y t s = {}"
    by (auto simp add: cmp_correct_rows_def cmp_wrong_rows_def)
  have un: "cmp_correct_rows P Y t s \<union> cmp_wrong_rows P Y t s = {..<nrows P}"
    by (auto simp add: cmp_correct_rows_def cmp_wrong_rows_def)
  from card_Un_disjoint [OF fin dis] un show ?thesis by simp
qed

lemma one_minus_wrong:
  "fl_rsub 1 (fdiv (real (card (cmp_wrong_rows P Y t s))) (real (nrows P)))
     = fdiv (real (card (cmp_correct_rows P Y t s))) (real (nrows P))"
proof (cases "nrows P = 0")
  case True
  then have "card (cmp_correct_rows P Y t s) = 0" "card (cmp_wrong_rows P Y t s) = 0"
    by (simp_all add: cmp_correct_rows_def cmp_wrong_rows_def)
  with True show ?thesis by (simp add: fdiv_def)
next
  case False
  have "real (card (cmp_correct_rows P Y t s))
          = real (nrows P) - real (card (cmp_wrong_rows P Y t s))"
    using correct_wrong_rows [of P Y t s] by linarith
  with False show ?thesis by (simp add: fdiv_def field_simps)
qed

lemma fl_gt_trans: "fl_gt a b \<Longrightarrow> fl_gt b c \<Longrightarrow> fl_gt a c"
  by (cases a; cases b; cases c) simp_all

lemma fl_gt_not_trans:
  "fl_gt c b \<Longrightarrow> \<not> fl_gt a b \<Longrightarrow> a = NaN \<or> fl_gt c a"
  by (cases a; cases b; cases c) simp_all

lemma sweep_scan:
  assumes "\<forall>u\<in>set ts. \<exists>m. f P Y (Some u) None = Inr m"
  shows "(sweep f P Y ts opt mx = Inr opt
            \<and> (\<forall>v\<in>set ts. \<exists>m'. f P Y (Some v) None = Inr m' \<and> \<not> fl_gt m' mx))
         \<or> (\<exists>pre u post m. ts = pre @ u # post
              \<and> sweep f P Y ts opt mx = Inr (Some u)
              \<and> f P Y (Some u) None = Inr m \<and> fl_gt m mx
              \<and> (\<forall>v\<in>set pre. \<exists>m'. f P Y (Some v) None = Inr m' \<and> (m' = NaN \<or> fl_gt m m'))
              \<and> (\<forall>v\<in>set post. \<exists>m'. f P Y (Some v) None = Inr m' \<and> \<not> fl_gt m' m))"
  using assms
proof (induction ts arbitrary: opt mx)
  case Nil
  then show ?case by simp
next
  case (Cons t ts)
  from Cons.prems obtain mt where mt: "f P Y (Some t) None = Inr mt"
    by auto
  from Cons.prems have rest: "\<forall>u\<in>set ts. \<exists>m. f P Y (Some u) None = Inr m"
    by simp
  show ?case
  proof (cases "fl_gt mt mx")
    case True
    then have sw: "sweep f P Y (t # ts) opt mx = sweep f P Y ts (Some t) mt"
      by (simp add: mt)
    from Cons.IH [where opt = "Some t" and mx = mt, OF rest]
    show ?thesis
    proof (elim disjE conjE exE)
      assume a: "sweep f P Y ts (Some t) mt = Inr (Some t)"
        "\<forall>v\<in>set ts. \<exists>m'. f P Y (Some v) None = Inr m' \<and> \<not> fl_gt m' mt"
      show ?thesis
        apply (rule disjI2)
        apply (rule exI [of _ "[]"], rule exI [of _ t], rule exI [of _ ts], rule exI [of _ mt])
        using a sw mt True by simp
    next
      fix pre u post m
      assume a: "ts = pre @ u # post" "sweep f P Y ts (Some t) mt = Inr (Some u)"
        "f P Y (Some u) None = Inr m" "fl_gt m mt"
        "\<forall>v\<in>set pre. \<exists>m'. f P Y (Some v) None = Inr m' \<and> (m' = NaN \<or> fl_gt m m')"
        "\<forall>v\<in>set post. \<exists>m'. f P Y (Some v) None = Inr m' \<and> \<not> fl_gt m' m"
      have 1: "t # ts = (t # pre) @ u # post" using a(1) by simp
      have 2: "fl_gt m mx" using a(4) True by (rule fl_gt_trans)
      have 3: "\<forall>v\<in>set (t # pre). \<exists>m'. f P Y (Some v) None = Inr m' \<and> (m' = NaN \<or> fl_gt m m')"
        using a(4,5) mt by simp
      show ?thesis
        apply (rule disjI2)
        apply (rule exI [of _ "t # pre"], rule exI [of _ u], rule exI [of _ post], rule exI [of _ m])
        using 1 2 3 a(2,3,6) sw by simp
    qed
  next
    case False
    then have sw: "sweep f P Y (t # ts) opt mx = sweep f P Y ts opt mx"
      by (simp add: mt)
    from Cons.IH [where opt = opt and mx = mx, OF rest]
    show ?thesis
    proof (elim disjE conjE exE)
      assume a: "sweep f P Y ts opt mx = Inr opt"
        "\<forall>v\<in>set ts. \<exists>m'. f P Y (Some v) None = Inr m' \<and> \<not> fl_gt m' mx"
      show ?thesis
        apply (rule disjI1)
        using a sw mt False by simp
    next
      fix pre u post m
      assume a: "ts = pre @ u # post" "sweep f P Y ts opt mx = Inr (Some u)"
        "f P Y (Some u) None = Inr m" "fl_gt m mx"
        "\<forall>v\<in>set pre. \<exists>m'. f P Y (Some v) None = Inr m' \<and> (m' = NaN \<or> fl_gt m m')"
        "\<forall>v\<in>set post. \<exists>m'. f P Y (Some v) None = Inr m' \<and> \<not> fl_gt m' m"
      have 1: "t # ts = (t # pre) @ u # post" using a(1) by simp
      have "mt = NaN \<or> fl_gt m mt" using a(4) False by (rule fl_gt_not_trans)
      then have 3: "\<forall>v\<in>set (t # pre). \<exists>m'. f P Y (Some v) None = Inr m' \<and> (m' = NaN \<or> fl_gt m m')"
        using a(5) mt by simp
      show ?thesis
        apply (rule disjI2)
        apply (rule exI [of _ "t # pre"], rule exI [of _ u], rule exI [of _ post], rule exI [of _ m])
        using 1 3 a(2,3,4,6) sw by simp
    qed
  qed
qed

lemma sweep_error:
  assumes "\<forall>v\<in>set pre. \<exists>m. f P Y (Some v) None = Inr m"
    and "f P Y (Some u) None = Inl e"
  shows "sweep f P Y (pre @ u # post) opt mx = Inl e"
  using assms(1)
proof (induction pre arbitrary: opt mx)
  case Nil
  show ?case by (simp add: assms(2))
next
  case (Cons t pre)
  from Cons.prems obtain mt where mt: "f P Y (Some t) None = Inr mt" by auto
  from Cons.prems have rest: "\<forall>v\<in>set pre. \<exists>m. f P Y (Some v) None = Inr m" by simp
  show ?case
    using Cons.IH [where opt = "Some t" and mx = mt, OF rest]
      Cons.IH [where opt = opt and mx = mx, OF rest]
    by (simp add: mt)
qed

lemmas fixtures = Y4_def P4_def Y5_def P5_def P22_def Y12_def P03_def P07_def Y1_def Z1_def
  E03_def E20_def of_rows_def

lemmas run_metric = hamming_accuracy_def zero_one_accuracy_def t_gt_def t_float_def t_ne_def
  broadcast_dim_def t_sum_def t_sum_dim1_def t_ones_def reshape_len_def fdiv_def t_sigmoid_def
  sigmoid_fn_def hamming_accuracy_call_def zero_one_accuracy_call_def
  default_sigmoid_def upt_rec

lemma run_hamming_P4: "hamming_accuracy P4 Y4 (1/2) False = Inr (Fin (11/12))"
  by (simp add: fixtures run_metric)

lemma run_zero_one_P4: "zero_one_accuracy P4 Y4 (1/2) False = Inr (Fin (3/4))"
  by (simp add: fixtures run_metric)

lemma run_zero_one_P5:
  "zero_one_accuracy_call lost P5 Y5 (Some (1/10)) None = Inr (Fin (3/5))"
  "zero_one_accuracy_call lost P5 Y5 (Some (1/2)) None = Inr (Fin (4/5))"
  "zero_one_accuracy_call lost P5 Y5 (Some (9/10)) None = Inr (Fin (2/5))"
  by (simp_all add: fixtures run_metric)

lemma run_broadcast:
  "hamming_accuracy P22 Y12 (1/2) False = Inr (Fin (1/2))"
  "zero_one_accuracy P22 Y12 (1/2) False = Inr (Fin (1/2))"
  by (simp_all add: fixtures run_metric)

lemma run_no_columns:
  "zero_one_accuracy E20 E20 (1/2) False = Inl ShapeError"
  "hamming_accuracy E20 E20 (1/2) False = Inr NaN"
  by (simp_all add: fixtures run_metric)

lemma run_empty_batch:
  "hamming_accuracy E03 E03 (1/2) False = Inr NaN"
  "zero_one_accuracy E03 E03 (1/2) False = Inr NaN"
  "hamming_accuracy_call lost E03 E03 (Some (1/2)) None = Inr NaN"
  by (simp_all add: fixtures run_metric)

lemma run_shape_error:
  "hamming_accuracy_call lost P4 Y12 (Some (1/2)) None = Inl ShapeError"
  by (simp add: fixtures run_metric)


lemma run_zero_threshold:
  "hamming_accuracy P07 Y1 0 False = Inr (Fin 0)"
  "zero_one_accuracy P07 Y1 0 False = Inr (Fin 0)"
  "hamming_accuracy P07 Y1 (1/100) False = Inr (Fin 1)"
  "zero_one_accuracy P07 Y1 (1/100) False = Inr (Fin 1)"
  by (simp_all add: fixtures run_metric)

lemma run_thresholds:
  "length default_thresholds = 21"
  "default_thresholds ! 0 = 0"
  "default_thresholds ! 20 = 1"
  by (simp_all add: default_thresholds_def linspace_def)

lemma run_sweep:
  "get_optimal_threshold (zero_one_accuracy_call lost) P5 Y5 [1/10, 1/2, 9/10]
     = Inr (Some (1/2))"
  by (simp add: get_optimal_threshold_def run_zero_one_P5)

lemma run_sweep0:
  "get_optimal_threshold (hamming_accuracy_call lost) P07 Y1 [0, 1/2] = Inr (Some (1/2))"
  by (simp add: get_optimal_threshold_def fixtures run_metric)

lemma row_mismatches_zero:
  "cmp_row_mismatches P Y t s i = 0
     \<longleftrightarrow> (\<forall>j<ncols P. cmp_label P t s i j = entry Y i j)"
  by (auto simp add: cmp_row_mismatches_def)

lemma finite_cmp_wrong_rows: "finite (cmp_wrong_rows P Y t s)"
  by (simp add: cmp_wrong_rows_def)

lemma mismatch_in_wrong_row:
  assumes "(i, j) \<in> cmp_mismatches P Y t s"
  shows "i \<in> cmp_wrong_rows P Y t s"
proof -
  from assms have i: "i < nrows P" and j: "j < ncols P"
    and ne: "cmp_label P t s i j \<noteq> entry Y i j"
    by (simp_all add: cmp_mismatches_def)
  have "j \<in> {j. j < ncols P \<and> cmp_label P t s i j \<noteq> entry Y i j}" using j ne by simp
  moreover have "finite {j. j < ncols P \<and> cmp_label P t s i j \<noteq> entry Y i j}" by simp
  ultimately have "0 < card {j. j < ncols P \<and> cmp_label P t s i j \<noteq> entry Y i j}"
    by (metis card_gt_0_iff empty_iff)
  with i show ?thesis by (simp add: cmp_wrong_rows_def cmp_row_mismatches_def)
qed

lemma zero_one_accuracy_no_cols:
  assumes "nrows P = nrows Y" and "ncols P = ncols Y" and "ncols P = 0"
  shows "zero_one_accuracy P Y t s = Inl ShapeError"
proof -
  have sh: "nrows (prep P t s) = nrows Y" "ncols (prep P t s) = ncols Y"
    using assms by (simp_all add: prep_shape)
  show ?thesis
    unfolding zero_one_accuracy_prep t_ne_same_shape [OF sh]
    by (simp add: assms(3) reshape_len_no_cols)
qed

lemma zero_one_perfect_no_wrong_rows:
  assumes "nrows P = nrows Y" and "ncols P = ncols Y"
    and "zero_one_accuracy P Y t s = Inr (Fin 1)"
  shows "0 < nrows P \<and> 0 < ncols P \<and> cmp_wrong_rows P Y t s = {}"
proof -
  have k: "0 < ncols P"
  proof (rule ccontr)
    assume "\<not> 0 < ncols P"
    then have "zero_one_accuracy P Y t s = Inl ShapeError"
      using zero_one_accuracy_no_cols [OF assms(1,2)] by simp
    with assms(3) show False by simp
  qed
  from zero_one_accuracy_same_shape [OF assms(1,2) k, of t s] assms(3)
  have eq: "fl_rsub 1 (fdiv (real (card (cmp_wrong_rows P Y t s))) (real (nrows P))) = Fin 1"
    by simp
  have n: "0 < nrows P"
  proof (rule ccontr)
    assume "\<not> 0 < nrows P"
    then have "nrows P = 0" by simp
    then have "card (cmp_wrong_rows P Y t s) = 0" by (simp add: cmp_wrong_rows_def)
    with \<open>nrows P = 0\<close> eq show False by (simp add: fdiv_def)
  qed
  from eq n have "card (cmp_wrong_rows P Y t s) = 0" by (simp add: fdiv_def)
  then have "cmp_wrong_rows P Y t s = {}" using finite_cmp_wrong_rows by simp
  with k n show ?thesis by simp
qed


lemma label_zero: "cmp_label P 0 s i j = spec_score P s i j"
  by (simp add: cmp_label_def)


text \<open>For a threshold other than 0 the code compares the binarized prediction.\<close>

lemma cmp_label_binarized: "t \<noteq> 0 \<Longrightarrow> cmp_label P t s i j = spec_label P t s i j"
  by (simp add: cmp_label_def spec_label_def)

lemma cmp_mismatches_binarized:
  "t \<noteq> 0 \<Longrightarrow> cmp_mismatches P Y t s = spec_mismatches P Y t s"
  by (simp add: cmp_mismatches_def spec_mismatches_def cmp_label_binarized)

lemma cmp_row_mismatches_binarized:
  "t \<noteq> 0 \<Longrightarrow> cmp_row_mismatches P Y t s i = spec_row_mismatches P Y t s i"
  by (simp add: cmp_row_mismatches_def spec_row_mismatches_def cmp_label_binarized)

lemma cmp_correct_rows_binarized:
  "t \<noteq> 0 \<Longrightarrow> cmp_correct_rows P Y t s = spec_correct_rows P Y t s"
  by (simp add: cmp_correct_rows_def spec_correct_rows_def cmp_row_mismatches_binarized)

lemma hamming_accuracy_binarized:
  assumes "t \<noteq> 0" and "nrows P = nrows Y" and "ncols P = ncols Y"
  shows "hamming_accuracy P Y t s =
           Inr (fl_rsub 1 (fdiv (real (card (spec_mismatches P Y t s)))
                                (real (nrows P * ncols P))))"
  using hamming_accuracy_same_shape [OF assms(2,3), of t s]
  by (simp only: cmp_mismatches_binarized [OF assms(1)])

lemma zero_one_accuracy_binarized:
  assumes "t \<noteq> 0" and "nrows P = nrows Y" and "ncols P = ncols Y" and "0 < ncols P"
  shows "zero_one_accuracy P Y t s =
           Inr (fdiv (real (card (spec_correct_rows P Y t s))) (real (nrows P)))"
  using zero_one_accuracy_same_shape [OF assms(2,3,4), of t s]
  by (simp only: one_minus_wrong cmp_correct_rows_binarized [OF assms(1)])

lemma spec_row_mismatches_zero:
  "spec_row_mismatches P Y t s i = 0
     \<longleftrightarrow> (\<forall>j<ncols P. spec_label P t s i j = entry Y i j)"
  by (auto simp add: spec_row_mismatches_def)

lemma finite_spec_mismatches: "finite (spec_mismatches P Y t s)"
proof -
  have "spec_mismatches P Y t s \<subseteq> {..<nrows P} \<times> {..<ncols P}"
    by (auto simp add: spec_mismatches_def)
  then show ?thesis by (rule finite_subset) simp
qed

lemma matches_mismatches:
  "card (spec_matches P Y t s) + card (spec_mismatches P Y t s) = nrows P * ncols P"
proof -
  have sub: "spec_matches P Y t s \<subseteq> {..<nrows P} \<times> {..<ncols P}"
    by (auto simp add: spec_matches_def)
  have fin: "finite (spec_matches P Y t s)" "finite (spec_mismatches P Y t s)"
    by (rule finite_subset [OF sub], simp) (rule finite_spec_mismatches)
  have dis: "spec_matches P Y t s \<inter> spec_mismatches P Y t s = {}"
    by (auto simp add: spec_matches_def spec_mismatches_def)
  have un: "spec_matches P Y t s \<union> spec_mismatches P Y t s = {..<nrows P} \<times> {..<ncols P}"
    by (auto simp add: spec_matches_def spec_mismatches_def)
  from card_Un_disjoint [OF fin dis] un show ?thesis by simp
qed

lemma card_mismatches_P4: "card (spec_mismatches P4 Y4 (1/2) False) = 1"
proof -
  have sh: "(1/2 :: real) \<noteq> 0" "nrows P4 = nrows Y4" "ncols P4 = ncols Y4"
    and n: "nrows P4 = 4" "ncols P4 = 3"
    by (simp_all add: fixtures)
  define c where "c = card (spec_mismatches P4 Y4 (1/2) False)"
  have "hamming_accuracy P4 Y4 (1/2) False
          = Inr (fl_rsub 1 (fdiv (real c) (real (nrows P4 * ncols P4))))"
    unfolding c_def by (rule hamming_accuracy_binarized [OF sh])
  then have "Fin (11/12) = fl_rsub 1 (fdiv (real c) 12)"
    unfolding run_hamming_P4 n by simp
  then have "c = 1" by (simp add: fdiv_def)
  then show ?thesis by (simp add: c_def)
qed

text \<open>
  At the threshold 0 the binarized score 0.7 is the label 1: no mismatch with the true
  label 1, and the only row is correct.
\<close>

lemma no_mismatch_P07: "spec_mismatches P07 Y1 0 False = {}"
  by (auto simp add: spec_mismatches_def spec_label_def spec_score_def fixtures intro!: gr0I)

lemma correct_rows_P07: "spec_correct_rows P07 Y1 0 False = {0}"
  by (auto simp add: spec_correct_rows_def spec_row_mismatches_def spec_label_def
      spec_score_def fixtures intro!: gr0I)

text \<open>A score that is not a number, or minus infinity, is never kept.\<close>

lemma unordered_score_is_never_kept:
  "f P Y (Some u) None = Inr NaN \<or> f P Y (Some u) None = Inr NegInf
     \<Longrightarrow> get_optimal_threshold f P Y [u] = Inr None"
  by (auto simp add: get_optimal_threshold_def)

text \<open>
  The float constant of the default pair: whatever the illegible bytes are, its mantissa
  is not zero (its lowest byte is \<open>9a\<close>), so it is no power of two.
\<close>

lemma double_not_half:
  fixes mant ex :: nat and sg :: real
  assumes "0 < mant" and "mant < 2 ^ 52" and "sg = 1 \<or> sg = - 1"
  shows "sg * (1 + real mant / 2 ^ 52) * 2 ^ ex / 2 ^ 1023 \<noteq> 1/2"
proof (cases "sg = 1")
  case False
  with assms(3) have sg: "sg = - 1" by simp
  have "0 < (1 + real mant / 2 ^ 52) * 2 ^ ex / 2 ^ 1023"
    by (intro divide_pos_pos mult_pos_pos add_pos_nonneg) simp_all
  then have "sg * ((1 + real mant / 2 ^ 52) * 2 ^ ex / 2 ^ 1023) \<noteq> 1/2"
    unfolding sg by linarith
  then show ?thesis
    unfolding times_divide_eq_right mult.assoc [symmetric] .
next
  case True
  define x :: real where "x = 1 + real mant / 2 ^ 52"
  define p :: real where "p = 2 ^ ex"
  have x: "1 < x" "x < 2" using assms(1,2) by (simp_all add: x_def)
  have p: "0 < p" by (simp add: p_def)
  have "x * p \<noteq> 2 ^ 1022"
  proof (cases "1022 \<le> ex")
    case True
    then have "(2::real) ^ 1022 \<le> p" unfolding p_def by (rule power_increasing) simp
    moreover have "1 * p < x * p" using x(1) p by (rule mult_strict_right_mono)
    ultimately show ?thesis by linarith
  next
    case False
    then have "ex \<le> 1021" by simp
    then have "p \<le> (2::real) ^ 1021" unfolding p_def by (rule power_increasing) simp
    moreover have "x * p < 2 * p" using x(2) p by (rule mult_strict_right_mono)
    moreover have "(2::real) * 2 ^ 1021 = 2 ^ 1022" by simp
    ultimately show ?thesis by linarith
  qed
  moreover have "sg * (1 + real mant / 2 ^ 52) * 2 ^ ex / 2 ^ 1023 = x * p / 2 ^ 1023"
    by (simp add: True x_def p_def)
  moreover have "(x * p / 2 ^ 1023 = 1/2) = (x * p = 2 ^ 1022)"
    by (simp add: field_simps)
  ultimately show ?thesis by simp
qed

lemma le_bits_low_byte: "le_bits (b # bs) mod 256 = unat b"
proof -
  have "unat b < 256" using unsigned_less [of b] by simp
  then show ?thesis by (simp add: le_bits_def)
qed

lemma default_threshold_not_half: "default_threshold lost \<noteq> 1/2"
proof -
  obtain b2 b3 b4 b5 b6 where lost: "lost = (b2, b3, b4, b5, b6)" by (cases lost) auto
  define bits where "bits = le_bits [0x9a, 0x99, b2, b3, b4, b5, b6, 0x3f]"
  have low: "bits mod 256 = 154" unfolding bits_def by (simp add: le_bits_low_byte)
  have "(bits mod 2 ^ 52) mod 256 = bits mod 256"
    by (rule mod_mod_cancel) simp
  with low have m0: "0 < bits mod 2 ^ 52" by (cases "bits mod 2 ^ 52 = 0") simp_all
  have m1: "bits mod 2 ^ 52 < 2 ^ 52" by simp
  have sg: "(if bits div 2 ^ 63 mod 2 = 1 then - 1 else (1::real)) = 1
      \<or> (if bits div 2 ^ 63 mod 2 = 1 then - 1 else (1::real)) = - 1" by simp
  show ?thesis
    unfolding default_threshold_def lost prod.case double_of_bytes_def Let_def
      bits_def [symmetric]
    by (rule double_not_half [OF m0 m1 sg])
qed

lemma default_threshold_not_zero: "default_threshold lost \<noteq> 0"
proof -
  obtain b2 b3 b4 b5 b6 where lost: "lost = (b2, b3, b4, b5, b6)" by (cases lost) auto
  define bits where "bits = le_bits [0x9a, 0x99, b2, b3, b4, b5, b6, 0x3f]"
  have "0 < 1 + real (bits mod 2 ^ 52) / 2 ^ 52" by (simp add: add_pos_nonneg)
  then have "(if bits div 2 ^ 63 mod 2 = 1 then - 1 else 1)
      * (1 + real (bits mod 2 ^ 52) / 2 ^ 52) * 2 ^ (bits div 2 ^ 52 mod 2 ^ 11) / 2 ^ 1023 \<noteq> 0"
    by simp
  then show ?thesis
    unfolding default_threshold_def lost prod.case double_of_bytes_def Let_def
      bits_def [symmetric] .
qed

text \<open>
  A score halfway between the default threshold and 0.5, with the true label 1, tells
  the two thresholds apart.
\<close>

lemma threshold_told_apart:
  assumes "c \<noteq> 0" and "c \<noteq> 1/2"
  shows "hamming_accuracy (of_rows 1 1 [[(c + 1/2) / 2]]) Y1 c False
           \<noteq> hamming_accuracy (of_rows 1 1 [[(c + 1/2) / 2]]) Y1 (1/2) False"
proof (cases "c < 1/2")
  case True
  then have "c < (c + 1/2) / 2" "\<not> 1/2 < (c + 1/2) / 2" by simp_all
  then show ?thesis using assms(1) by (simp add: fixtures run_metric)
next
  case False
  with assms(2) have "\<not> c < (c + 1/2) / 2" "1/2 < (c + 1/2) / 2" by simp_all
  then show ?thesis using assms(1) by (simp add: fixtures run_metric)
qed

section \<open>The claims\<close>

text \<open>
  C1 (as stated, refuted). The claimed formula, one minus the share of positions where
  the binarized prediction equals the ground truth, is not what \<open>hamming_accuracy\<close>
  returns: in the specification's scenario with one wrong label out of twelve the code
  returns 11/12, the claimed formula gives 1/12. Nor does the claim hold for every
  threshold: at the threshold 0 the score 0.7 binarizes to the true label 1, no
  position is mismatched, and the code returns 0, not 1.
\<close>

theorem hamming_claimed_counterexample:
  "hamming_accuracy P4 Y4 (1/2) False = Inr (Fin (11/12))
   \<and> spec_hamming_claimed P4 Y4 (1/2) False = Fin (1/12)
   \<and> spec_mismatches P07 Y1 0 False = {}
   \<and> hamming_accuracy P07 Y1 0 False = Inr (Fin 0)"
proof -
  have sh: "nrows P4 = 4" "ncols P4 = 3" by (simp_all add: fixtures)
  from matches_mismatches [of P4 Y4 "1/2" False] card_mismatches_P4
  have "card (spec_matches P4 Y4 (1/2) False) = 11" by (simp add: sh)
  then have "spec_hamming_claimed P4 Y4 (1/2) False = Fin (1/12)"
    by (simp add: spec_hamming_claimed_def sh fdiv_def)
  with run_hamming_P4 no_mismatch_P07 run_zero_threshold(1) show ?thesis by simp
qed

text \<open>
  C1 (amended). On equal shapes and for every threshold other than 0,
  \<open>hamming_accuracy\<close> is one minus the number of positions where the binarized
  prediction differs from the ground truth, over the number of positions \<open>n * k\<close>
  (not a number when \<open>n * k = 0\<close>). On a non-empty matrix the result is 1.0 exactly
  when no position differs, and with exactly one differing position it is
  \<open>1 - 1/(n * k)\<close> (11/12 for four samples and three labels).
\<close>

theorem hamming_accuracy_mismatch_rate:
  assumes "t \<noteq> 0" and "nrows P = nrows Y" and "ncols P = ncols Y"
  shows "hamming_accuracy P Y t s =
           Inr (fl_rsub 1 (fdiv (real (card (spec_mismatches P Y t s)))
                                (real (nrows P * ncols P))))
    \<and> (0 < nrows P * ncols P \<longrightarrow>
         (hamming_accuracy P Y t s = Inr (Fin 1) \<longleftrightarrow> spec_mismatches P Y t s = {}))
    \<and> (0 < nrows P * ncols P \<and> card (spec_mismatches P Y t s) = 1 \<longrightarrow>
         hamming_accuracy P Y t s = Inr (Fin (1 - 1 / real (nrows P * ncols P))))"
proof -
  note eq = hamming_accuracy_binarized [OF assms, of s]
  have "0 < nrows P * ncols P \<Longrightarrow>
      (hamming_accuracy P Y t s = Inr (Fin 1) \<longleftrightarrow> spec_mismatches P Y t s = {})"
    unfolding eq using finite_spec_mismatches [of P Y t s] by (simp add: fdiv_def)
  moreover have "0 < nrows P * ncols P \<and> card (spec_mismatches P Y t s) = 1 \<Longrightarrow>
      hamming_accuracy P Y t s = Inr (Fin (1 - 1 / real (nrows P * ncols P)))"
    unfolding eq by (simp add: fdiv_def)
  ultimately show ?thesis using eq by blast
qed

theorem hamming_accuracy_mismatch_rate_witness:
  "hamming_accuracy P4 Y4 (1/2) False = Inr (Fin (1 - 1 / real (nrows P4 * ncols P4)))
   \<and> card (spec_mismatches P4 Y4 (1/2) False) = 1"
proof -
  have sh: "(1/2 :: real) \<noteq> 0" "nrows P4 = nrows Y4" "ncols P4 = ncols Y4"
    and ne: "0 < nrows P4 * ncols P4"
    by (simp_all add: fixtures)
  from hamming_accuracy_mismatch_rate [OF sh, of False]
  have "0 < nrows P4 * ncols P4 \<and> card (spec_mismatches P4 Y4 (1/2) False) = 1 \<longrightarrow>
      hamming_accuracy P4 Y4 (1/2) False = Inr (Fin (1 - 1 / real (nrows P4 * ncols P4)))"
    by (elim conjE)
  with ne card_mismatches_P4 show ?thesis by blast
qed

text \<open>
  C2 (as stated, refuted). The claim does not hold for every threshold and every shape:
  at the threshold 0 the score 0.7 binarizes to the true label 1, so the only row is
  correct and the claimed result is 1/1, but the code returns 0; and for two samples
  without a label column the code raises an error instead of returning a share of
  rows.
\<close>

theorem zero_one_claimed_counterexample:
  "zero_one_accuracy P07 Y1 0 False = Inr (Fin 0)
   \<and> fdiv (real (card (spec_correct_rows P07 Y1 0 False))) (real (nrows P07)) = Fin 1
   \<and> zero_one_accuracy E20 E20 (1/2) False = Inl ShapeError"
proof -
  have "fdiv (real (card (spec_correct_rows P07 Y1 0 False))) (real (nrows P07)) = Fin 1"
    by (simp add: correct_rows_P07 fdiv_def) (simp add: fixtures)
  with run_zero_threshold(2) run_no_columns(1) show ?thesis by simp
qed

text \<open>
  C2 (amended). On equal shapes with at least one label column and for every threshold
  other than 0, \<open>zero_one_accuracy\<close> binarizes the prediction (after the sigmoid if
  requested) and returns the number of correct rows over the number of rows (not a
  number for an empty batch), where a row is correct exactly when its number of
  mismatches against the ground-truth row is zero; in particular a row with no true
  label and no predicted label is correct.
\<close>

theorem zero_one_accuracy_correct_rows:
  assumes "t \<noteq> 0" and "nrows P = nrows Y" and "ncols P = ncols Y" and "0 < ncols P"
  shows "zero_one_accuracy P Y t s =
           Inr (fdiv (real (card (spec_correct_rows P Y t s))) (real (nrows P)))
    \<and> (\<forall>i<nrows P. (i \<in> spec_correct_rows P Y t s
                      \<longleftrightarrow> spec_row_mismatches P Y t s i = 0))
    \<and> (\<forall>i<nrows P. (\<forall>j<ncols P. spec_label P t s i j = 0 \<and> entry Y i j = 0)
                      \<longrightarrow> i \<in> spec_correct_rows P Y t s)"
proof -
  have "zero_one_accuracy P Y t s =
           Inr (fdiv (real (card (spec_correct_rows P Y t s))) (real (nrows P)))"
    by (rule zero_one_accuracy_binarized [OF assms])
  moreover have "\<forall>i<nrows P. (i \<in> spec_correct_rows P Y t s
                      \<longleftrightarrow> spec_row_mismatches P Y t s i = 0)"
    by (simp add: spec_correct_rows_def)
  moreover have "\<forall>i<nrows P. (\<forall>j<ncols P. spec_label P t s i j = 0 \<and> entry Y i j = 0)
                      \<longrightarrow> i \<in> spec_correct_rows P Y t s"
    by (simp add: spec_correct_rows_def spec_row_mismatches_zero)
  ultimately show ?thesis by blast
qed

theorem zero_one_accuracy_correct_rows_witness:
  "zero_one_accuracy P4 Y4 (1/2) False = Inr (Fin (3/4))
   \<and> fdiv (real (card (spec_correct_rows P4 Y4 (1/2) False))) (real (nrows P4)) = Fin (3/4)"
proof -
  have sh: "(1/2 :: real) \<noteq> 0" "nrows P4 = nrows Y4" "ncols P4 = ncols Y4" "0 < ncols P4"
    by (simp_all add: fixtures)
  from zero_one_accuracy_correct_rows [OF sh, of False] run_zero_one_P4
  show ?thesis by simp
qed

text \<open>
  C3 (as stated, refuted). A singleton candidate list does not return its candidate
  regardless of the score: on an empty batch \<open>hamming_accuracy\<close> is not a number, the
  comparison with the running maximum is false, and the search returns \<open>None\<close>; and
  when the metric raises an error, so does the search.
\<close>

theorem singleton_candidate_counterexample:
  "hamming_accuracy_call some_lost_bytes E03 E03 (Some (1/2)) None = Inr NaN
   \<and> get_optimal_threshold (hamming_accuracy_call some_lost_bytes) E03 E03 [1/2] = Inr None
   \<and> get_optimal_threshold (hamming_accuracy_call some_lost_bytes) P4 Y12 [1/2]
       = Inl ShapeError"
  by (simp add: get_optimal_threshold_def run_empty_batch run_shape_error)

text \<open>
  C3 (amended). \<open>get_optimal_threshold\<close> scans the candidates in order, calling the
  metric with the candidate as threshold and the sigmoid flag omitted (false for both
  metrics of this module); an error raised by the metric ends the search with that
  error. Otherwise a candidate is kept only when its score is strictly greater than the
  running maximum, which starts at minus infinity: a score that is not a number or is
  minus infinity is never kept. The result is a candidate itself, not its score: the
  candidate whose score is above minus infinity, strictly greater than every earlier
  score that is a number, and not exceeded by any later score; or \<open>None\<close> when no
  candidate has a score above minus infinity. A singleton list returns its candidate
  when its score is above minus infinity, and \<open>None\<close> otherwise.
\<close>

theorem get_optimal_threshold_scan:
  "((\<forall>u\<in>set ts. \<exists>m. f P Y (Some u) None = Inr m) \<longrightarrow>
      (get_optimal_threshold f P Y ts = Inr None
         \<and> (\<forall>v\<in>set ts. \<exists>m'. f P Y (Some v) None = Inr m' \<and> \<not> fl_gt m' NegInf))
      \<or> (\<exists>pre u post m. ts = pre @ u # post
           \<and> get_optimal_threshold f P Y ts = Inr (Some u)
           \<and> f P Y (Some u) None = Inr m \<and> fl_gt m NegInf
           \<and> (\<forall>v\<in>set pre. \<exists>m'. f P Y (Some v) None = Inr m' \<and> (m' = NaN \<or> fl_gt m m'))
           \<and> (\<forall>v\<in>set post. \<exists>m'. f P Y (Some v) None = Inr m' \<and> \<not> fl_gt m' m)))
   \<and> (\<forall>pre u post e. ts = pre @ u # post
         \<and> (\<forall>v\<in>set pre. \<exists>m. f P Y (Some v) None = Inr m)
         \<and> f P Y (Some u) None = Inl e
       \<longrightarrow> get_optimal_threshold f P Y ts = Inl e)
   \<and> (\<forall>u m. f P Y (Some u) None = Inr m \<longrightarrow>
         get_optimal_threshold f P Y [u] = (if fl_gt m NegInf then Inr (Some u) else Inr None))
   \<and> (\<forall>u. hamming_accuracy_call lost P Y (Some u) None = hamming_accuracy P Y u False)
   \<and> (\<forall>u. zero_one_accuracy_call lost P Y (Some u) None = zero_one_accuracy P Y u False)"
proof (intro conjI)
  show "(\<forall>u\<in>set ts. \<exists>m. f P Y (Some u) None = Inr m) \<longrightarrow>
      (get_optimal_threshold f P Y ts = Inr None
         \<and> (\<forall>v\<in>set ts. \<exists>m'. f P Y (Some v) None = Inr m' \<and> \<not> fl_gt m' NegInf))
      \<or> (\<exists>pre u post m. ts = pre @ u # post
           \<and> get_optimal_threshold f P Y ts = Inr (Some u)
           \<and> f P Y (Some u) None = Inr m \<and> fl_gt m NegInf
           \<and> (\<forall>v\<in>set pre. \<exists>m'. f P Y (Some v) None = Inr m' \<and> (m' = NaN \<or> fl_gt m m'))
           \<and> (\<forall>v\<in>set post. \<exists>m'. f P Y (Some v) None = Inr m' \<and> \<not> fl_gt m' m))"
  proof
    assume ok: "\<forall>u\<in>set ts. \<exists>m. f P Y (Some u) None = Inr m"
    show "(get_optimal_threshold f P Y ts = Inr None
         \<and> (\<forall>v\<in>set ts. \<exists>m'. f P Y (Some v) None = Inr m' \<and> \<not> fl_gt m' NegInf))
      \<or> (\<exists>pre u post m. ts = pre @ u # post
           \<and> get_optimal_threshold f P Y ts = Inr (Some u)
           \<and> f P Y (Some u) None = Inr m \<and> fl_gt m NegInf
           \<and> (\<forall>v\<in>set pre. \<exists>m'. f P Y (Some v) None = Inr m' \<and> (m' = NaN \<or> fl_gt m m'))
           \<and> (\<forall>v\<in>set post. \<exists>m'. f P Y (Some v) None = Inr m' \<and> \<not> fl_gt m' m))"
      unfolding get_optimal_threshold_def
      by (rule sweep_scan [where ts = ts and f = f and P = P and Y = Y and opt = None
            and mx = NegInf, OF ok])
  qed
next
  show "\<forall>pre u post e. ts = pre @ u # post
         \<and> (\<forall>v\<in>set pre. \<exists>m. f P Y (Some v) None = Inr m)
         \<and> f P Y (Some u) None = Inl e
       \<longrightarrow> get_optimal_threshold f P Y ts = Inl e"
  proof (intro allI impI, elim conjE)
    fix pre u post e
    assume ts: "ts = pre @ u # post"
      and ok: "\<forall>v\<in>set pre. \<exists>m. f P Y (Some v) None = Inr m"
      and er: "f P Y (Some u) None = Inl e"
    show "get_optimal_threshold f P Y ts = Inl e"
      unfolding get_optimal_threshold_def ts
      by (rule sweep_error [where pre = pre and f = f and P = P and Y = Y, OF ok er])
  qed
next
  show "\<forall>u m. f P Y (Some u) None = Inr m \<longrightarrow>
         get_optimal_threshold f P Y [u] = (if fl_gt m NegInf then Inr (Some u) else Inr None)"
    by (simp add: get_optimal_threshold_def)
next
  show "\<forall>u. hamming_accuracy_call lost P Y (Some u) None = hamming_accuracy P Y u False"
    by (simp add: hamming_accuracy_call_def default_sigmoid_def)
next
  show "\<forall>u. zero_one_accuracy_call lost P Y (Some u) None = zero_one_accuracy P Y u False"
    by (simp add: zero_one_accuracy_call_def default_sigmoid_def)
qed

theorem get_optimal_threshold_scan_witness:
  "((get_optimal_threshold (zero_one_accuracy_call some_lost_bytes) P5 Y5 [1/10, 1/2, 9/10]
        = Inr None
      \<and> (\<forall>v\<in>set [1/10, 1/2, 9/10 :: real].
           \<exists>m'. zero_one_accuracy_call some_lost_bytes P5 Y5 (Some v) None = Inr m'
             \<and> \<not> fl_gt m' NegInf))
    \<or> (\<exists>pre u post m. [1/10, 1/2, 9/10] = pre @ u # post
         \<and> get_optimal_threshold (zero_one_accuracy_call some_lost_bytes) P5 Y5
              [1/10, 1/2, 9/10] = Inr (Some u)
         \<and> zero_one_accuracy_call some_lost_bytes P5 Y5 (Some u) None = Inr m
         \<and> fl_gt m NegInf
         \<and> (\<forall>v\<in>set pre.
              \<exists>m'. zero_one_accuracy_call some_lost_bytes P5 Y5 (Some v) None = Inr m'
                \<and> (m' = NaN \<or> fl_gt m m'))
         \<and> (\<forall>v\<in>set post.
              \<exists>m'. zero_one_accuracy_call some_lost_bytes P5 Y5 (Some v) None = Inr m'
                \<and> \<not> fl_gt m' m)))
   \<and> get_optimal_threshold (zero_one_accuracy_call some_lost_bytes) P5 Y5 [1/10, 1/2, 9/10]
       = Inr (Some (1/2))"
proof -
  have ok: "\<forall>u\<in>set [1/10, 1/2, 9/10 :: real].
      \<exists>m. zero_one_accuracy_call some_lost_bytes P5 Y5 (Some u) None = Inr m"
    by (simp add: run_zero_one_P5)
  note scan = get_optimal_threshold_scan
    [where ts = "[1/10, 1/2, 9/10]" and f = "zero_one_accuracy_call some_lost_bytes"
      and P = P5 and Y = Y5 and lost = some_lost_bytes, THEN conjunct1, THEN mp, OF ok]
  from scan run_sweep [of some_lost_bytes] show ?thesis by (rule conjI)
qed

text \<open>
  C4 (as stated, refuted). With an empty candidate sequence the search raises no error:
  it returns \<open>None\<close>.
\<close>

theorem empty_candidates_counterexample:
  "get_optimal_threshold (hamming_accuracy_call some_lost_bytes) P4 Y4 [] = Inr None"
  by (simp add: get_optimal_threshold_def)

text \<open>
  C4 (amended). With an empty candidate sequence \<open>get_optimal_threshold\<close> evaluates
  the metric nowhere and returns \<open>None\<close>, for every metric and all matrices.
\<close>

theorem empty_candidates_return_none:
  "get_optimal_threshold f P Y [] = Inr None"
  by (simp add: get_optimal_threshold_def)

theorem empty_candidates_return_none_witness:
  "get_optimal_threshold (zero_one_accuracy_call some_lost_bytes) P5 Y5 [] = Inr None"
  by (rule empty_candidates_return_none)

text \<open>
  C5 (as stated, refuted). The omitted threshold is not 0.5. The float constant of the
  signatures has the lowest byte \<open>9a\<close>, so whatever its five illegible bytes are, it
  differs from 0.5; and for a score halfway between the constant and 0.5, with the true
  label 1, the call without a threshold and the call with the threshold 0.5 return
  different results.
\<close>

theorem default_threshold_counterexample:
  "\<forall>lost. default_threshold lost \<noteq> 1/2
     \<and> hamming_accuracy_call lost
           (of_rows 1 1 [[(default_threshold lost + 1/2) / 2]]) Y1 None None
         \<noteq> hamming_accuracy_call lost
           (of_rows 1 1 [[(default_threshold lost + 1/2) / 2]]) Y1 (Some (1/2)) None"
proof
  fix lost
  have "hamming_accuracy_call lost
           (of_rows 1 1 [[(default_threshold lost + 1/2) / 2]]) Y1 None None
         \<noteq> hamming_accuracy_call lost
           (of_rows 1 1 [[(default_threshold lost + 1/2) / 2]]) Y1 (Some (1/2)) None"
    unfolding hamming_accuracy_call_def default_sigmoid_def option.case
    by (rule threshold_told_apart [OF default_threshold_not_zero default_threshold_not_half])
  with default_threshold_not_half [of lost]
  show "default_threshold lost \<noteq> 1/2
     \<and> hamming_accuracy_call lost
           (of_rows 1 1 [[(default_threshold lost + 1/2) / 2]]) Y1 None None
         \<noteq> hamming_accuracy_call lost
           (of_rows 1 1 [[(default_threshold lost + 1/2) / 2]]) Y1 (Some (1/2)) None"
    by (rule conjI)
qed

text \<open>
  C5 (amended). For both metrics an omitted threshold is the float constant of the
  signature, which is not 0.5 whatever its illegible bytes are, and an omitted sigmoid
  flag is false.
\<close>

theorem metric_defaults:
  "hamming_accuracy_call lost P Y None sg
     = hamming_accuracy_call lost P Y (Some (default_threshold lost)) sg
   \<and> zero_one_accuracy_call lost P Y None sg
     = zero_one_accuracy_call lost P Y (Some (default_threshold lost)) sg
   \<and> default_threshold lost \<noteq> 1/2
   \<and> hamming_accuracy_call lost P Y th None = hamming_accuracy_call lost P Y th (Some False)
   \<and> zero_one_accuracy_call lost P Y th None = zero_one_accuracy_call lost P Y th (Some False)"
proof (intro conjI)
  show "default_threshold lost \<noteq> 1/2" by (rule default_threshold_not_half)
qed (simp_all add: hamming_accuracy_call_def zero_one_accuracy_call_def default_sigmoid_def)

theorem metric_defaults_witness:
  "hamming_accuracy_call some_lost_bytes P03 Y1 None None
     = hamming_accuracy_call some_lost_bytes P03 Y1
         (Some (default_threshold some_lost_bytes)) (Some False)
   \<and> default_threshold some_lost_bytes \<noteq> 1/2"
proof -
  have a: "hamming_accuracy_call some_lost_bytes P03 Y1 None None
             = hamming_accuracy_call some_lost_bytes P03 Y1
                 (Some (default_threshold some_lost_bytes)) None"
    and b: "default_threshold some_lost_bytes \<noteq> 1/2"
    using metric_defaults [of some_lost_bytes P03 Y1 None None] by blast+
  have c: "hamming_accuracy_call some_lost_bytes P03 Y1
             (Some (default_threshold some_lost_bytes)) None
           = hamming_accuracy_call some_lost_bytes P03 Y1
               (Some (default_threshold some_lost_bytes)) (Some False)"
    using metric_defaults
      [of some_lost_bytes P03 Y1 None "Some (default_threshold some_lost_bytes)"]
    by blast
  from a b c show ?thesis by simp
qed

text \<open>
  C6 (as stated, refuted). The default candidate sequence has 21 values, not 10, and it
  begins with 0 and ends with 1.
\<close>

theorem default_thresholds_counterexample:
  "length default_thresholds = 21
   \<and> default_thresholds ! 0 = 0
   \<and> default_thresholds ! 20 = 1"
  by (simp add: run_thresholds)

text \<open>
  C6 (amended). With the candidate sequence omitted, \<open>get_optimal_threshold\<close> uses
  the 21 evenly spaced values \<open>0, 0.05, \<dots>, 1\<close> of the closed interval from 0 to 1, both
  endpoints included.
\<close>

theorem default_thresholds_grid:
  "get_optimal_threshold_call f P Y None = get_optimal_threshold f P Y default_thresholds
   \<and> default_thresholds = map (\<lambda>i. real i / 20) [0..<21]
   \<and> length default_thresholds = 21
   \<and> hd default_thresholds = 0
   \<and> last default_thresholds = 1"
proof -
  have g: "default_thresholds = map (\<lambda>i. real i / 20) [0..<21]"
    by (simp add: default_thresholds_def linspace_def)
  have "hd default_thresholds = 0" unfolding g by (simp add: hd_map upt_rec)
  moreover have "last default_thresholds = 1" unfolding g by (simp add: last_map)
  moreover have "length default_thresholds = 21" unfolding g by simp
  ultimately show ?thesis using g by (simp add: get_optimal_threshold_call_def)
qed

theorem default_thresholds_grid_witness:
  "get_optimal_threshold_call (hamming_accuracy_call some_lost_bytes) P4 Y4 None
     = get_optimal_threshold (hamming_accuracy_call some_lost_bytes) P4 Y4 default_thresholds"
  using default_thresholds_grid [of "hamming_accuracy_call some_lost_bytes" P4 Y4] by simp



text \<open>
  C8 (as stated, refuted). Shapes that differ need not raise an error: a prediction of
  shape (2, 2) and a ground truth of shape (1, 2) are broadcast by the comparison, and
  both metrics return a value.
\<close>

theorem shape_mismatch_counterexample:
  "nrows P22 = 2 \<and> nrows Y12 = 1
   \<and> hamming_accuracy P22 Y12 (1/2) False = Inr (Fin (1/2))
   \<and> zero_one_accuracy P22 Y12 (1/2) False = Inr (Fin (1/2))"
  by (simp add: run_broadcast) (simp add: fixtures)

text \<open>
  C8 (amended). \<open>hamming_accuracy\<close> raises a shape error exactly when the two shapes
  cannot be broadcast, that is when the sizes of a dimension differ and neither is 1.
  \<open>zero_one_accuracy\<close> raises a shape error exactly when the shapes cannot be broadcast
  or the prediction has no label column. In every other case, in particular for shapes
  that differ only in dimensions of size 1, the metric returns a value.
\<close>

theorem shape_error_iff_not_broadcastable:
  "(hamming_accuracy P Y t s = Inl ShapeError
      \<longleftrightarrow> (nrows P \<noteq> nrows Y \<and> nrows P \<noteq> 1 \<and> nrows Y \<noteq> 1)
          \<or> (ncols P \<noteq> ncols Y \<and> ncols P \<noteq> 1 \<and> ncols Y \<noteq> 1))
   \<and> (zero_one_accuracy P Y t s = Inl ShapeError
      \<longleftrightarrow> (nrows P \<noteq> nrows Y \<and> nrows P \<noteq> 1 \<and> nrows Y \<noteq> 1)
          \<or> (ncols P \<noteq> ncols Y \<and> ncols P \<noteq> 1 \<and> ncols Y \<noteq> 1)
          \<or> ncols P = 0)
   \<and> ((\<exists>v. hamming_accuracy P Y t s = Inr v)
      \<longleftrightarrow> hamming_accuracy P Y t s \<noteq> Inl ShapeError)
   \<and> ((\<exists>v. zero_one_accuracy P Y t s = Inr v)
      \<longleftrightarrow> zero_one_accuracy P Y t s \<noteq> Inl ShapeError)"
proof -
  have sh: "nrows (prep P t s) = nrows P" "ncols (prep P t s) = ncols P"
    by (simp_all add: prep_shape)
  have h: "hamming_accuracy P Y t s = Inl ShapeError
      \<longleftrightarrow> (nrows P \<noteq> nrows Y \<and> nrows P \<noteq> 1 \<and> nrows Y \<noteq> 1)
          \<or> (ncols P \<noteq> ncols Y \<and> ncols P \<noteq> 1 \<and> ncols Y \<noteq> 1)"
    unfolding hamming_accuracy_prep
    by (auto simp add: t_ne_def broadcast_dim_def sh split: sum.splits option.splits if_splits)
  have z: "zero_one_accuracy P Y t s = Inl ShapeError
      \<longleftrightarrow> (nrows P \<noteq> nrows Y \<and> nrows P \<noteq> 1 \<and> nrows Y \<noteq> 1)
          \<or> (ncols P \<noteq> ncols Y \<and> ncols P \<noteq> 1 \<and> ncols Y \<noteq> 1)
          \<or> ncols P = 0"
    unfolding zero_one_accuracy_prep
    by (auto simp add: t_ne_def broadcast_dim_def sh reshape_len_def
        split: sum.splits option.splits if_splits)
  have e: "(\<exists>v. r = Inr v) \<longleftrightarrow> r \<noteq> Inl ShapeError" for r :: "error + fl"
    by (cases r) (auto intro: error.exhaust)
  from h z e [of "hamming_accuracy P Y t s"] e [of "zero_one_accuracy P Y t s"]
  show ?thesis by (intro conjI)
qed

theorem shape_error_iff_not_broadcastable_witness:
  "hamming_accuracy P4 Y12 (1/2) False = Inl ShapeError
   \<and> zero_one_accuracy P4 Y12 (1/2) False = Inl ShapeError
   \<and> (\<exists>v. hamming_accuracy P22 Y12 (1/2) False = Inr v)
   \<and> (\<exists>v. zero_one_accuracy P22 Y12 (1/2) False = Inr v)"
proof -
  have bad: "ncols P4 \<noteq> ncols Y12 \<and> ncols P4 \<noteq> 1 \<and> ncols Y12 \<noteq> 1"
    by (simp add: fixtures)
  have good: "\<not> ((nrows P22 \<noteq> nrows Y12 \<and> nrows P22 \<noteq> 1 \<and> nrows Y12 \<noteq> 1)
          \<or> (ncols P22 \<noteq> ncols Y12 \<and> ncols P22 \<noteq> 1 \<and> ncols Y12 \<noteq> 1)
          \<or> ncols P22 = 0)"
    by (simp add: fixtures)
  from shape_error_iff_not_broadcastable [of P4 Y12 "1/2" False] bad
  have 1: "hamming_accuracy P4 Y12 (1/2) False = Inl ShapeError"
    and 2: "zero_one_accuracy P4 Y12 (1/2) False = Inl ShapeError"
    by blast+
  from shape_error_iff_not_broadcastable [of P22 Y12 "1/2" False] good
  have 3: "\<exists>v. hamming_accuracy P22 Y12 (1/2) False = Inr v"
    and 4: "\<exists>v. zero_one_accuracy P22 Y12 (1/2) False = Inr v"
    by blast+
  from 1 2 3 4 show ?thesis by (intro conjI)
qed

text \<open>
  C9 (as stated, refuted). A prediction that equals the ground truth after binarization
  does not give 1.0 for every threshold and every shape: at the threshold 0 the score
  0.7 binarizes to the true label 1, yet both metrics return 0; and on an empty batch
  both metrics return not-a-number.
\<close>

theorem perfect_match_counterexample:
  "spec_mismatches P07 Y1 0 False = {}
   \<and> hamming_accuracy P07 Y1 0 False = Inr (Fin 0)
   \<and> zero_one_accuracy P07 Y1 0 False = Inr (Fin 0)
   \<and> spec_mismatches E03 E03 (1/2) False = {}
   \<and> hamming_accuracy E03 E03 (1/2) False = Inr NaN
   \<and> zero_one_accuracy E03 E03 (1/2) False = Inr NaN"
proof -
  have "spec_mismatches E03 E03 (1/2) False = {}"
    by (simp add: spec_mismatches_def fixtures)
  with no_mismatch_P07 run_zero_threshold(1,2) run_empty_batch(1,2) show ?thesis by simp
qed

text \<open>
  C9 (amended). On equal, non-empty shapes and for every threshold other than 0: when
  the binarized prediction equals the ground truth at every position, both
  \<open>hamming_accuracy\<close> and \<open>zero_one_accuracy\<close> are 1.0. On equal shapes and for every
  threshold, whenever \<open>zero_one_accuracy\<close> is 1.0, so is \<open>hamming_accuracy\<close>.
\<close>

theorem perfect_match_gives_one:
  assumes "nrows P = nrows Y" and "ncols P = ncols Y"
  shows "(t \<noteq> 0 \<and> 0 < nrows P \<and> 0 < ncols P
            \<and> (\<forall>i<nrows P. \<forall>j<ncols P. spec_label P t s i j = entry Y i j)
          \<longrightarrow> hamming_accuracy P Y t s = Inr (Fin 1)
              \<and> zero_one_accuracy P Y t s = Inr (Fin 1))
    \<and> (zero_one_accuracy P Y t s = Inr (Fin 1)
          \<longrightarrow> hamming_accuracy P Y t s = Inr (Fin 1))"
proof (intro conjI impI)
  assume a: "t \<noteq> 0 \<and> 0 < nrows P \<and> 0 < ncols P
      \<and> (\<forall>i<nrows P. \<forall>j<ncols P. spec_label P t s i j = entry Y i j)"
  then have t: "t \<noteq> 0" and k: "0 < ncols P" and n: "0 < nrows P" by simp_all
  from a have m: "spec_mismatches P Y t s = {}"
    by (auto simp add: spec_mismatches_def)
  from a have "\<forall>i<nrows P. spec_row_mismatches P Y t s i = 0"
    by (simp add: spec_row_mismatches_zero)
  then have c: "spec_correct_rows P Y t s = {..<nrows P}"
    by (auto simp add: spec_correct_rows_def)
  from n k show "hamming_accuracy P Y t s = Inr (Fin 1)"
    by (simp add: hamming_accuracy_binarized [OF t assms] m fdiv_def)
  from n show "zero_one_accuracy P Y t s = Inr (Fin 1)"
    by (simp add: zero_one_accuracy_binarized [OF t assms k] c fdiv_def)
next
  assume "zero_one_accuracy P Y t s = Inr (Fin 1)"
  from zero_one_perfect_no_wrong_rows [OF assms this]
  have n: "0 < nrows P" and k: "0 < ncols P" and w: "cmp_wrong_rows P Y t s = {}"
    by simp_all
  from w mismatch_in_wrong_row [of _ _ P Y t s] have "cmp_mismatches P Y t s = {}"
    by auto
  with n k show "hamming_accuracy P Y t s = Inr (Fin 1)"
    by (simp add: hamming_accuracy_same_shape [OF assms] fdiv_def)
qed

theorem perfect_match_gives_one_witness:
  "hamming_accuracy Y4 Y4 (1/2) False = Inr (Fin 1)
   \<and> zero_one_accuracy Y4 Y4 (1/2) False = Inr (Fin 1)"
proof -
  have z: "zero_one_accuracy Y4 Y4 (1/2) False = Inr (Fin 1)"
    by (simp add: fixtures run_metric)
  have "zero_one_accuracy Y4 Y4 (1/2) False = Inr (Fin 1)
          \<longrightarrow> hamming_accuracy Y4 Y4 (1/2) False = Inr (Fin 1)"
    using perfect_match_gives_one [of Y4 Y4 "1/2" False] by blast
  with z show ?thesis by simp
qed

text \<open>
  C10. With the threshold 0 neither metric binarizes: the scores themselves (after the
  sigmoid if the flag is set) are compared for equality with the ground truth. The score
  0.7 against the true label 1 is a mismatch at the threshold 0, though it is above 0,
  and a match at the threshold 0.01; a search over the candidates 0 and 0.5 therefore
  returns 0.5.
\<close>

theorem zero_threshold_skips_binarization:
  assumes "nrows P = nrows Y" and "ncols P = ncols Y"
  shows "hamming_accuracy P Y 0 s =
           Inr (fl_rsub 1 (fdiv
             (real (card {(i, j). i < nrows P \<and> j < ncols P
                 \<and> spec_score P s i j \<noteq> entry Y i j}))
             (real (nrows P * ncols P))))
    \<and> (0 < ncols P \<longrightarrow> zero_one_accuracy P Y 0 s =
           Inr (fdiv
             (real (card {i. i < nrows P \<and> (\<forall>j<ncols P. spec_score P s i j = entry Y i j)}))
             (real (nrows P))))
    \<and> hamming_accuracy P07 Y1 0 False = Inr (Fin 0)
    \<and> zero_one_accuracy P07 Y1 0 False = Inr (Fin 0)
    \<and> hamming_accuracy P07 Y1 (1/100) False = Inr (Fin 1)
    \<and> zero_one_accuracy P07 Y1 (1/100) False = Inr (Fin 1)
    \<and> get_optimal_threshold (hamming_accuracy_call lost) P07 Y1 [0, 1/2] = Inr (Some (1/2))"
proof -
  have h: "hamming_accuracy P Y 0 s =
           Inr (fl_rsub 1 (fdiv
             (real (card {(i, j). i < nrows P \<and> j < ncols P
                 \<and> spec_score P s i j \<noteq> entry Y i j}))
             (real (nrows P * ncols P))))"
    unfolding hamming_accuracy_same_shape [OF assms] cmp_mismatches_def
    by (simp only: label_zero)
  have z: "0 < ncols P \<longrightarrow> zero_one_accuracy P Y 0 s =
           Inr (fdiv
             (real (card {i. i < nrows P \<and> (\<forall>j<ncols P. spec_score P s i j = entry Y i j)}))
             (real (nrows P)))"
  proof
    assume k: "0 < ncols P"
    show "zero_one_accuracy P Y 0 s =
           Inr (fdiv
             (real (card {i. i < nrows P \<and> (\<forall>j<ncols P. spec_score P s i j = entry Y i j)}))
             (real (nrows P)))"
      unfolding zero_one_accuracy_same_shape [OF assms k] one_minus_wrong
        cmp_correct_rows_def row_mismatches_zero
      by (simp only: label_zero)
  qed
  from h z run_zero_threshold run_sweep0 show ?thesis by simp
qed

theorem zero_threshold_skips_binarization_witness:
  "hamming_accuracy P07 Y1 0 False = Inr (Fin 0)
   \<and> card {(i, j). i < nrows P07 \<and> j < ncols P07
        \<and> spec_score P07 False i j \<noteq> entry Y1 i j} = 1"
proof -
  have sh: "nrows P07 = nrows Y1" "ncols P07 = ncols Y1"
    by (simp_all add: fixtures)
  have n: "nrows P07 = 1" "ncols P07 = 1" by (simp_all add: fixtures)
  define c where "c = card {(i, j). i < nrows P07 \<and> j < ncols P07
        \<and> spec_score P07 False i j \<noteq> entry Y1 i j}"
  from zero_threshold_skips_binarization [OF sh, of False]
  have "hamming_accuracy P07 Y1 0 False
          = Inr (fl_rsub 1 (fdiv (real c) (real (nrows P07 * ncols P07))))"
    unfolding c_def by blast
  then have "Fin 0 = fl_rsub 1 (fdiv (real c) 1)"
    unfolding run_zero_threshold n by simp
  then have "c = 1" by (simp add: fdiv_def)
  with run_zero_threshold show ?thesis by (simp add: c_def)
qed

end
